theory Spec2Isabelle
  imports Complex_Main "HOL-Library.Word"
begin

section \<open>JavaScript values the component handles\<close>

text \<open>
  A JavaScript string is a sequence of UTF-16 code units, and \<open>length\<close> counts code
  units. String literals of the source are written through \<open>js\<close>.
\<close>

type_synonym code_unit = "16 word"
type_synonym jsstring = "code_unit list"

definition js :: "string \<Rightarrow> jsstring" where
  "js s = map of_char s"

text \<open>
  The code units that \<open>String.prototype.trim\<close> strips: the WhiteSpace and
  LineTerminator productions of ECMAScript.
\<close>

definition is_ws :: "code_unit \<Rightarrow> bool" where
  "is_ws c \<longleftrightarrow>
     c = 0x0009 \<or> c = 0x000A \<or> c = 0x000B \<or> c = 0x000C \<or> c = 0x000D \<or> c = 0x0020 \<or>
     c = 0x00A0 \<or> c = 0x1680 \<or> (0x2000 \<le> c \<and> c \<le> 0x200A) \<or> c = 0x2028 \<or>
     c = 0x2029 \<or> c = 0x202F \<or> c = 0x205F \<or> c = 0x3000 \<or> c = 0xFEFF"

definition trim :: "jsstring \<Rightarrow> jsstring" where
  "trim s = rev (dropWhile is_ws (rev (dropWhile is_ws s)))"

text \<open>
  Values that cross the hub boundary untyped (the user identifier, the timestamp):
  \<open>undefined\<close>, \<open>null\<close>, a number or a string. \<open>truthy\<close> is the test that
  \<open>if (v)\<close>, \<open>!v\<close> and \<open>a && b\<close> apply to them; \<open>===\<close> on these values is
  equality of the datatype.
\<close>

datatype jsval = Undefined | Null | Num int | Str jsstring

fun truthy :: "jsval \<Rightarrow> bool" where
  "truthy Undefined = False"
| "truthy Null = False"
| "truthy (Num n) = (n \<noteq> 0)"
| "truthy (Str s) = (s \<noteq> [])"

subsection \<open>Numbers\<close>

text \<open>
  A JavaScript number is an IEEE 754 binary64 value, and \<open>+\<close> on numbers returns the
  exact sum rounded to the nearest binary64 value, ties to the even significand. Finite
  numbers are modelled by the rationals they denote and \<open>binary64\<close> is that rounding:
  for \<open>2 ^ e \<le> \<bar>x\<bar> < 2 ^ (e + 1)\<close> the representable values are the multiples of
  \<open>2 ^ (e - 52)\<close>, and below \<open>2 ^ - 1022\<close> (subnormal numbers) the multiples of
  \<open>2 ^ - 1074\<close>. Overflow to infinity, which starts at \<open>2 ^ 1024\<close>, is not modelled:
  the one sum of the source, \<open>Date.now() + Math.random()\<close>, stays below \<open>2 ^ 53 + 1\<close>.
\<close>

function bit_length :: "int \<Rightarrow> int" where
  "bit_length n = (if n \<le> 0 then 0 else 1 + bit_length (n div 2))"
  by pat_completeness auto
termination
  by (relation "measure nat") auto

declare bit_length.simps [simp del]

definition pow2 :: "int \<Rightarrow> rat" where
  "pow2 e = (if 0 \<le> e then 2 ^ nat e else 1 / 2 ^ nat (- e))"

text \<open>
  For positive \<open>x\<close>, the \<open>e\<close> with \<open>2 ^ e \<le> x < 2 ^ (e + 1)\<close>: with numerator
  and denominator of \<open>a\<close> and \<open>b\<close> binary digits it is \<open>a - b\<close> or \<open>a - b - 1\<close>.
\<close>

definition exponent :: "rat \<Rightarrow> int" where
  "exponent x =
     (case quotient_of x of (p, q) \<Rightarrow>
        let d = bit_length p - bit_length q
        in if pow2 d \<le> x then d else d - 1)"

definition round_half_even :: "rat \<Rightarrow> int" where
  "round_half_even y =
     (let f = \<lfloor>y\<rfloor>; d = y - of_int f
      in if d < 1 / 2 then f else if 1 / 2 < d then f + 1
         else if f mod 2 = 0 then f else f + 1)"

definition binary64 :: "rat \<Rightarrow> rat" where
  "binary64 x =
     (if x = 0 then 0
      else let e = max (exponent \<bar>x\<bar>) (- 1022); q = pow2 (e - 52)
           in sgn x * of_int (round_half_even (\<bar>x\<bar> / q)) * q)"

section \<open>The validation schema\<close>

text \<open>
  Lines 5-15 of both files:
  \<^verbatim>\<open>
  const NAME_MAX_LENGTH = 20
  const MESSAGE_MAX_LENGTH = 500
  const NAME_MIN_LENGTH = 2
  const MESSAGE_MIN_LENGTH = 1
  const schema = yup.object({
    userName: yup.string().trim().required('Name required').min(NAME_MIN_LENGTH).max(NAME_MAX_LENGTH),
    messageInput: yup.string().trim().required('Message required').min(MESSAGE_MIN_LENGTH).max(MESSAGE_MAX_LENGTH),
  })
  \<close>
  The schema is data: per field, the chain of rules in the order written. What the
  library does with a chain is modelled below as its documentation gives it: \<open>trim()\<close>
  is a transform applied when the value is cast, before any test, and also a test that
  the cast value is trimmed; \<open>required\<close> on a string rejects the empty string;
  \<open>min\<close> and \<open>max\<close> compare \<open>length\<close>. Validation aborts early (the default), so
  the error thrown carries the message of the first failing test.
\<close>

definition NAME_MAX_LENGTH :: nat where "NAME_MAX_LENGTH = 20"
definition MESSAGE_MAX_LENGTH :: nat where "MESSAGE_MAX_LENGTH = 500"
definition NAME_MIN_LENGTH :: nat where "NAME_MIN_LENGTH = 2"
definition MESSAGE_MIN_LENGTH :: nat where "MESSAGE_MIN_LENGTH = 1"

datatype schema_field = UserName | MessageInput

datatype rule = Trim | Required string | Min nat | Max nat

fun schema :: "schema_field \<Rightarrow> rule list" where
  "schema UserName =
     [Trim, Required ''Name required'', Min NAME_MIN_LENGTH, Max NAME_MAX_LENGTH]"
| "schema MessageInput =
     [Trim, Required ''Message required'', Min MESSAGE_MIN_LENGTH, Max MESSAGE_MAX_LENGTH]"

text \<open>
  An error message is either a string literal of the source or one of the library's
  default texts, which name the field and the rule.
\<close>

datatype err_msg = Literal string | Default schema_field rule

fun cast :: "rule list \<Rightarrow> jsstring \<Rightarrow> jsstring" where
  "cast [] v = v"
| "cast (Trim # rs) v = cast rs (trim v)"
| "cast (r # rs) v = cast rs v"

fun test :: "rule \<Rightarrow> jsstring \<Rightarrow> bool" where
  "test Trim v = (v = trim v)"
| "test (Required m) v = (v \<noteq> [])"
| "test (Min n) v = (n \<le> length v)"
| "test (Max n) v = (length v \<le> n)"

fun message_of :: "schema_field \<Rightarrow> rule \<Rightarrow> err_msg" where
  "message_of f (Required m) = Literal m"
| "message_of f r = Default f r"

fun first_failure :: "schema_field \<Rightarrow> rule list \<Rightarrow> jsstring \<Rightarrow> err_msg option" where
  "first_failure f [] v = None"
| "first_failure f (r # rs) v =
     (if test r v then first_failure f rs v else Some (message_of f r))"

definition validate_field :: "schema_field \<Rightarrow> jsstring \<Rightarrow> err_msg option" where
  "validate_field f v = first_failure f (schema f) (cast (schema f) v)"

text \<open>
  The order in which the object schema visits its two fields is the library's (it sorts
  the keys), not the source's, so it is a parameter of the model: every theorem below
  holds for both orders.
\<close>

datatype field_order = NameFirst | MessageFirst

fun nodes :: "field_order \<Rightarrow> schema_field list" where
  "nodes NameFirst = [UserName, MessageInput]"
| "nodes MessageFirst = [MessageInput, UserName]"

fun field_value :: "schema_field \<Rightarrow> jsstring \<Rightarrow> jsstring \<Rightarrow> jsstring" where
  "field_value UserName name msg = name"
| "field_value MessageInput name msg = msg"

fun first_error :: "schema_field list \<Rightarrow> jsstring \<Rightarrow> jsstring \<Rightarrow> err_msg option" where
  "first_error [] name msg = None"
| "first_error (f # fs) name msg =
     (case validate_field f (field_value f name msg) of
        Some m \<Rightarrow> Some m
      | None \<Rightarrow> first_error fs name msg)"

definition schema_validate :: "field_order \<Rightarrow> jsstring \<Rightarrow> jsstring \<Rightarrow> err_msg option" where
  "schema_validate ord name msg = first_error (nodes ord) name msg"

section \<open>The identity-aware component\<close>

subsection \<open>State\<close>

text \<open>
  An entry of the message log, as the \<open>ReceiveMessage\<close> handler builds it (lines 60-66):
  \<^verbatim>\<open>{ user, message, timestamp, userId: messageUserId, id: Date.now() + Math.random() }\<close>
  The fields \<open>user\<close>, \<open>message\<close>, \<open>timestamp\<close>, \<open>userId\<close> and \<open>id\<close> carry the
  prefix \<open>msg_\<close> here. \<open>Date.now()\<close> is an integer number of milliseconds and
  \<open>Math.random()\<close> a number in \<open>[0, 1)\<close>; both come from the environment with the
  event, and the id is their binary64 sum.
\<close>

record chat_message =
  msg_user :: jsstring
  msg_message :: jsstring
  msg_timestamp :: jsval
  msg_userId :: jsval
  msg_id :: rat

text \<open>
  The \<open>useState\<close> cells of \<open>App\<close> (lines 18-25). \<open>connection\<close> is \<open>null\<close> or the
  hub connection built on mount: a flag. \<open>validationErrors\<close> is \<open>{}\<close> or
  \<open>{ error: text }\<close>: an optional message.
\<close>

record app =
  connection :: bool
  messages :: "chat_message list"
  userName :: jsstring
  messageInput :: jsstring
  connected :: bool
  validationErrors :: "err_msg option"
  isSubmitting :: bool
  userId :: jsval

definition initial :: app where
  "initial = \<lparr> connection = False, messages = [], userName = [], messageInput = [],
     connected = False, validationErrors = None, isSubmitting = False, userId = Null \<rparr>"

subsection \<open>Remote calls and events\<close>

text \<open>
  What the component asks of the hub connection: \<open>connection.start()\<close> and the three
  \<open>connection.invoke\<close> calls. The simple component passes the trimmed name where this
  one passes the user identifier, so the first argument of \<open>SendMessage\<close> is a value.
\<close>

datatype hub_call =
    Start
  | JoinChat jsstring
  | UpdateUserName jsval jsstring
  | SendMessage jsval jsstring

fun is_SendMessage :: "hub_call \<Rightarrow> bool" where
  "is_SendMessage (SendMessage u t) = True"
| "is_SendMessage c = False"

fun is_JoinChat :: "hub_call \<Rightarrow> bool" where
  "is_JoinChat (JoinChat n) = True"
| "is_JoinChat c = False"

fun is_UpdateUserName :: "hub_call \<Rightarrow> bool" where
  "is_UpdateUserName (UpdateUserName u n) = True"
| "is_UpdateUserName c = False"

text \<open>
  Everything that makes the component run a piece of its code: the mount, the two inputs'
  \<open>onChange\<close>, the submit action (button or Enter), the settling of each promise, the
  two hub events and the two transport callbacks. \<open>ReceiveMessage\<close> carries the payload
  \<open>(user, message, timestamp, messageUserId)\<close> and the values \<open>Date.now()\<close> and
  \<open>Math.random()\<close> return in the handler. Handlers run one at a time.
\<close>

datatype event =
    Mounted
  | NameChange jsstring
  | MessageChange jsstring
  | Submit
  | SendResolved
  | SendRejected
  | StartResolved
  | StartRejected
  | JoinResolved jsval
  | JoinRejected
  | UpdateResolved
  | UpdateRejected
  | ReceiveMessage jsstring jsstring jsval jsval int rat
  | UserNameUpdated jsstring jsstring jsval
  | Reconnected
  | Closed

subsection \<open>Effects\<close>

text \<open>
  Lines 83-97, the body of the join effect:
  \<^verbatim>\<open>if (connection && connected && userName.trim() && !userId) {
    const newUserId = await connection.invoke('JoinChat', userName.trim()) ... }\<close>
\<close>

definition joinChat :: "app \<Rightarrow> hub_call list" where
  "joinChat s =
     (if connection s \<and> connected s \<and> trim (userName s) \<noteq> [] \<and> \<not> truthy (userId s)
      then [JoinChat (trim (userName s))] else [])"

text \<open>
  Lines 100-116, the rename effect: \<open>updateName\<close> is called under \<open>if (userId)\<close> and
  tests \<open>connection && connected && userId && userName.trim()\<close> itself.
\<close>

definition updateName :: "app \<Rightarrow> hub_call list" where
  "updateName s =
     (if connection s \<and> connected s \<and> truthy (userId s) \<and> trim (userName s) \<noteq> []
      then [UpdateUserName (userId s) (trim (userName s))] else [])"

definition updateName_effect :: "app \<Rightarrow> hub_call list" where
  "updateName_effect s = (if truthy (userId s) then updateName s else [])"

text \<open>
  Lines 47-80: the effect on \<open>[connection]\<close> starts the connection and registers the
  handlers, once the connection exists.
\<close>

definition start_effect :: "app \<Rightarrow> hub_call list" where
  "start_effect s = (if connection s then [Start] else [])"

text \<open>
  After a render, an effect runs again when one of its dependencies differs from the
  previous render's. The join effect and the rename effect both depend on
  \<open>connection, connected, userName, userId\<close>.
\<close>

definition deps :: "app \<Rightarrow> bool \<times> bool \<times> jsstring \<times> jsval" where
  "deps s = (connection s, connected s, userName s, userId s)"

definition run_effects :: "app \<Rightarrow> app \<Rightarrow> hub_call list" where
  "run_effects prev cur =
     (if connection prev \<noteq> connection cur then start_effect cur else []) @
     (if deps prev \<noteq> deps cur then joinChat cur else []) @
     (if deps prev \<noteq> deps cur then updateName_effect cur else [])"

subsection \<open>Validation and submission\<close>

text \<open>
  \<open>validate\<close> and \<open>sendMessage\<close> are created anew by every render and read the
  state cells through that render's constants: \<open>userName\<close>, \<open>messageInput\<close>,
  \<open>isSubmitting\<close>, \<open>connected\<close>, \<open>userId\<close> and \<open>connection\<close> are the values the
  render saw, also after an \<open>await\<close>. The setters write to the state as it is when they
  are called. So both functions take the render \<open>r\<close> they belong to and the state
  \<open>s\<close> they write to.

  Lines 121-130: \<open>validate\<close> stores \<open>{}\<close> and returns true, or stores the thrown
  error's message and returns false.
\<close>

definition validate_closure :: "field_order \<Rightarrow> app \<Rightarrow> app \<Rightarrow> app \<times> bool" where
  "validate_closure ord r s =
     (case schema_validate ord (userName r) (messageInput r) of
        None \<Rightarrow> (s\<lparr>validationErrors := None\<rparr>, True)
      | Some m \<Rightarrow> (s\<lparr>validationErrors := Some m\<rparr>, False))"

text \<open>
  Lines 132-151, \<open>sendMessage\<close> up to the point where it waits for the hub:
  \<^verbatim>\<open>if (isSubmitting || !connected || !userId || !(await validate())) return
  setIsSubmitting(true)
  try { await connection.invoke('SendMessage', userId, messageInput.trim()) ...\<close>
  The guard reads the render's \<open>isSubmitting\<close>; the flag is raised in the state only
  after \<open>await validate()\<close>, and a handler sees it once a later render has picked it
  up. Between the guard and the \<open>invoke\<close> only promise continuations run, no other
  handler, so this part is one step. When \<open>connection\<close> is \<open>null\<close> the \<open>invoke\<close>
  throws inside the \<open>try\<close>: the \<open>catch\<close> and \<open>finally\<close> blocks run at once and
  nothing is sent.
\<close>

definition send_resolved :: "app \<Rightarrow> app" where
  "send_resolved s = s\<lparr>messageInput := [], isSubmitting := False\<rparr>"

definition send_rejected :: "app \<Rightarrow> app" where
  "send_rejected s = s\<lparr>validationErrors := Some (Literal ''Send failed''), isSubmitting := False\<rparr>"

definition sendMessage_closure :: "field_order \<Rightarrow> app \<Rightarrow> app \<Rightarrow> app \<times> hub_call list" where
  "sendMessage_closure ord r s =
     (if isSubmitting r \<or> \<not> connected r \<or> \<not> truthy (userId r) then (s, [])
      else case validate_closure ord r s of
        (s', False) \<Rightarrow> (s', [])
      | (s', True) \<Rightarrow>
          if connection r
          then (s'\<lparr>isSubmitting := True\<rparr>, [SendMessage (userId r) (trim (messageInput r))])
          else (send_rejected (s'\<lparr>isSubmitting := True\<rparr>), []))"

text \<open>
  The two functions as the render that shows the current state has them: what runs when
  React has rendered since the last change of state.
\<close>

definition validate :: "field_order \<Rightarrow> app \<Rightarrow> app \<times> bool" where
  "validate ord s = validate_closure ord s s"

definition sendMessage :: "field_order \<Rightarrow> app \<Rightarrow> app \<times> hub_call list" where
  "sendMessage ord s = sendMessage_closure ord s s"

subsection \<open>Handlers\<close>

definition receive_message ::
  "jsstring \<Rightarrow> jsstring \<Rightarrow> jsval \<Rightarrow> jsval \<Rightarrow> int \<Rightarrow> rat \<Rightarrow> chat_message" where
  "receive_message user message timestamp messageUserId now random =
     \<lparr> msg_user = user, msg_message = message, msg_timestamp = timestamp,
       msg_userId = messageUserId, msg_id = binary64 (of_int now + random) \<rparr>"

definition rename_message :: "jsstring \<Rightarrow> jsval \<Rightarrow> chat_message \<Rightarrow> chat_message" where
  "rename_message newName updatedUserId msg =
     (if msg_userId msg = updatedUserId then msg\<lparr>msg_user := newName\<rparr> else msg)"

fun handle :: "field_order \<Rightarrow> event \<Rightarrow> app \<Rightarrow> app \<times> hub_call list" where
  "handle ord Mounted s = (s\<lparr>connection := True\<rparr>, [])"
| "handle ord (NameChange v) s = (s\<lparr>userName := take NAME_MAX_LENGTH v\<rparr>, [])"
| "handle ord (MessageChange v) s = (s\<lparr>messageInput := take MESSAGE_MAX_LENGTH v\<rparr>, [])"
| "handle ord Submit s = sendMessage ord s"
| "handle ord SendResolved s = (send_resolved s, [])"
| "handle ord SendRejected s = (send_rejected s, [])"
| "handle ord StartResolved s = (s\<lparr>connected := True\<rparr>, [])"
| "handle ord StartRejected s = (s\<lparr>connected := False\<rparr>, [])"
| "handle ord (JoinResolved newUserId) s = (s\<lparr>userId := newUserId\<rparr>, [])"
| "handle ord JoinRejected s = (s, [])"
| "handle ord UpdateResolved s = (s, [])"
| "handle ord UpdateRejected s = (s, [])"
| "handle ord (ReceiveMessage user message timestamp messageUserId now random) s =
     (s\<lparr>messages := messages s @
          [receive_message user message timestamp messageUserId now random]\<rparr>, [])"
| "handle ord (UserNameUpdated oldName newName updatedUserId) s =
     (s\<lparr>messages := map (rename_message newName updatedUserId) (messages s)\<rparr>, [])"
| "handle ord Reconnected s = (s\<lparr>connected := True\<rparr>, [])"
| "handle ord Closed s = (s\<lparr>connected := False\<rparr>, [])"

text \<open>
  One step: the handler of the render that shows the current state runs, React renders
  the new state, and the effects whose dependencies changed run on it. The calls are
  listed in the order they are made.
\<close>

definition step :: "field_order \<Rightarrow> event \<Rightarrow> app \<Rightarrow> app \<times> hub_call list" where
  "step ord e s = (case handle ord e s of (s', cs) \<Rightarrow> (s', cs @ run_effects s s'))"

fun run :: "field_order \<Rightarrow> event list \<Rightarrow> app \<Rightarrow> app \<times> hub_call list" where
  "run ord [] s = (s, [])"
| "run ord (e # es) s =
     (case step ord e s of (s', cs) \<Rightarrow>
        (case run ord es s' of (s'', cs') \<Rightarrow> (s'', cs @ cs')))"

subsection \<open>Handlers of an earlier render\<close>

text \<open>
  React renders some time after a state change, and until then the handlers in the page
  are those of the render before. A session is the pair of the last render and the
  current state. An event runs the last render's handler on the current state; only
  \<open>sendMessage\<close> reads the render, the other handlers only call setters. A render
  takes up the current state and runs the effects against the render before.
\<close>

datatype tick = Event event | Render

definition handle_closure :: "field_order \<Rightarrow> app \<Rightarrow> event \<Rightarrow> app \<Rightarrow> app \<times> hub_call list" where
  "handle_closure ord r e s =
     (if e = Submit then sendMessage_closure ord r s else handle ord e s)"

fun tick_step :: "field_order \<Rightarrow> tick \<Rightarrow> app \<times> app \<Rightarrow> (app \<times> app) \<times> hub_call list" where
  "tick_step ord (Event e) (r, s) =
     (case handle_closure ord r e s of (s', cs) \<Rightarrow> ((r, s'), cs))"
| "tick_step ord Render (r, s) = ((s, s), run_effects r s)"

fun ticks :: "field_order \<Rightarrow> tick list \<Rightarrow> app \<times> app \<Rightarrow> (app \<times> app) \<times> hub_call list" where
  "ticks ord [] rs = (rs, [])"
| "ticks ord (t # ts) rs =
     (case tick_step ord t rs of (rs', cs) \<Rightarrow>
        (case ticks ord ts rs' of (rs'', cs') \<Rightarrow> (rs'', cs @ cs')))"

section \<open>The simple component\<close>

text \<open>
  \<open>src/App.jsx\<close>. Its log entries are \<open>{ user, message, id: Date.now() }\<close> (lines
  48-54): the handler names two parameters, so a timestamp or user identifier in the
  payload is not stored. Its state has neither \<open>isSubmitting\<close>, \<open>userId\<close> nor
  \<open>validationErrors\<close>. Names of this component carry the prefix \<open>simple_\<close>.
\<close>

record simple_message =
  simple_msg_user :: jsstring
  simple_msg_message :: jsstring
  simple_msg_id :: int

record simple_app =
  simple_connection :: bool
  simple_messages :: "simple_message list"
  simple_userName :: jsstring
  simple_messageInput :: jsstring
  simple_connected :: bool

definition simple_initial :: simple_app where
  "simple_initial = \<lparr> simple_connection = False, simple_messages = [], simple_userName = [],
     simple_messageInput = [], simple_connected = False \<rparr>"

text \<open>
  Lines 66-75:
  \<^verbatim>\<open>if (messageInput.trim() && userName.trim() && connection) {
    try { await connection.invoke('SendMessage', userName.trim(), messageInput)
          setMessageInput('') } catch (err) { console.error(...) } }\<close>
  The schema and the four length constants are declared in this file too, and nothing
  reads them.
\<close>

definition simple_sendMessage :: "simple_app \<Rightarrow> simple_app \<times> hub_call list" where
  "simple_sendMessage s =
     (if trim (simple_messageInput s) \<noteq> [] \<and> trim (simple_userName s) \<noteq> [] \<and> simple_connection s
      then (s, [SendMessage (Str (trim (simple_userName s))) (simple_messageInput s)])
      else (s, []))"

fun simple_handle :: "event \<Rightarrow> simple_app \<Rightarrow> simple_app \<times> hub_call list" where
  "simple_handle Mounted s = (s\<lparr>simple_connection := True\<rparr>, [])"
| "simple_handle (NameChange v) s = (s\<lparr>simple_userName := v\<rparr>, [])"
| "simple_handle (MessageChange v) s = (s\<lparr>simple_messageInput := v\<rparr>, [])"
| "simple_handle Submit s = simple_sendMessage s"
| "simple_handle SendResolved s = (s\<lparr>simple_messageInput := []\<rparr>, [])"
| "simple_handle StartResolved s = (s\<lparr>simple_connected := True\<rparr>, [])"
| "simple_handle StartRejected s = (s\<lparr>simple_connected := False\<rparr>, [])"
| "simple_handle (ReceiveMessage user message timestamp messageUserId now random) s =
     (s\<lparr>simple_messages := simple_messages s @
          [\<lparr> simple_msg_user = user, simple_msg_message = message, simple_msg_id = now \<rparr>]\<rparr>, [])"
| "simple_handle Reconnected s = (s\<lparr>simple_connected := True\<rparr>, [])"
| "simple_handle Closed s = (s\<lparr>simple_connected := False\<rparr>, [])"
| "simple_handle e s = (s, [])"

definition simple_step :: "event \<Rightarrow> simple_app \<Rightarrow> simple_app \<times> hub_call list" where
  "simple_step e s =
     (case simple_handle e s of (s', cs) \<Rightarrow>
        (s', cs @ (if simple_connection s \<noteq> simple_connection s' \<and> simple_connection s'
                   then [Start] else [])))"

fun simple_run :: "event list \<Rightarrow> simple_app \<Rightarrow> simple_app \<times> hub_call list" where
  "simple_run [] s = (s, [])"
| "simple_run (e # es) s =
     (case simple_step e s of (s', cs) \<Rightarrow>
        (case simple_run es s' of (s'', cs') \<Rightarrow> (s'', cs @ cs')))"

section \<open>Vocabulary of the properties\<close>

text \<open>
  The length bounds in the specification's words: after trimming, a name of 2 to 20
  characters and a message of 1 to 500 characters.
\<close>

definition within_bounds :: "jsstring \<Rightarrow> jsstring \<Rightarrow> bool" where
  "within_bounds name msg \<longleftrightarrow>
     2 \<le> length (trim name) \<and> length (trim name) \<le> 20 \<and>
     1 \<le> length (trim msg) \<and> length (trim msg) \<le> 500"

text \<open>
  Every failing rule's message, in the order the library meets the rules: what a
  validation that did not abort early would collect.
\<close>

definition failures :: "schema_field \<Rightarrow> jsstring \<Rightarrow> err_msg list" where
  "failures f v =
     map (message_of f) (filter (\<lambda>r. \<not> test r (cast (schema f) v)) (schema f))"

definition all_failures :: "field_order \<Rightarrow> jsstring \<Rightarrow> jsstring \<Rightarrow> err_msg list" where
  "all_failures ord name msg =
     concat (map (\<lambda>f. failures f (field_value f name msg)) (nodes ord))"

text \<open>
  One whole execution of \<open>sendMessage\<close>, from the call to its last line, when no other
  handler runs in between: either it returns before the \<open>invoke\<close>, or the hub settles
  the promise one way or the other.
\<close>

datatype completion = Succeeds | Fails

definition submit_action :: "field_order \<Rightarrow> completion \<Rightarrow> app \<Rightarrow> app" where
  "submit_action ord c s =
     (case sendMessage ord s of
        (s', []) \<Rightarrow> s'
      | (s', call # calls) \<Rightarrow> (case c of Succeeds \<Rightarrow> send_resolved s' | Fails \<Rightarrow> send_rejected s'))"

text \<open>
  States used as concrete inputs. \<open>al_typed\<close>: connected, the name "Al" typed, the
  \<open>JoinChat\<close> call not yet answered. \<open>al_joined\<close>: the hub has answered with identifier
  1 and a message is typed. \<open>simple_a\<close>: the simple component with the one-letter name
  "A" and the message "hi". \<open>simple_al\<close>: the same with the name "Al" and a message
  with spaces around it.
\<close>

definition al_typed :: app where
  "al_typed = \<lparr> connection = True, messages = [], userName = js ''Al'', messageInput = [],
     connected = True, validationErrors = None, isSubmitting = False, userId = Null \<rparr>"

definition al_joined :: app where
  "al_joined = \<lparr> connection = True, messages = [], userName = js ''Al'',
     messageInput = js '' hi '', connected = True,
     validationErrors = Some (Literal ''Message required''), isSubmitting = False,
     userId = Num 1 \<rparr>"

definition simple_a :: simple_app where
  "simple_a = \<lparr> simple_connection = True, simple_messages = [], simple_userName = js ''A'',
     simple_messageInput = js ''hi'', simple_connected = True \<rparr>"

definition simple_al :: simple_app where
  "simple_al = \<lparr> simple_connection = True, simple_messages = [], simple_userName = js ''Al'',
     simple_messageInput = js '' hi '', simple_connected = True \<rparr>"

text \<open>
  The entries that the \<open>ReceiveMessage\<close> events of a sequence add to the log of each
  component, in the order of the events, and the part of an entry that no handler
  rewrites: everything but the author name.
\<close>

fun received :: "event list \<Rightarrow> chat_message list" where
  "received [] = []"
| "received (ReceiveMessage user message timestamp messageUserId now random # es) =
     receive_message user message timestamp messageUserId now random # received es"
| "received (e # es) = received es"

fun simple_received :: "event list \<Rightarrow> simple_message list" where
  "simple_received [] = []"
| "simple_received (ReceiveMessage user message timestamp messageUserId now random # es) =
     \<lparr> simple_msg_user = user, simple_msg_message = message, simple_msg_id = now \<rparr>
       # simple_received es"
| "simple_received (e # es) = simple_received es"

definition content :: "chat_message \<Rightarrow> jsstring \<times> jsval \<times> jsval \<times> rat" where
  "content m = (msg_message m, msg_timestamp m, msg_userId m, msg_id m)"

text \<open>
  Two receipts within the same millisecond; two receipts within the same millisecond whose
  random numbers differ by \<open>2 ^ - 14\<close>; and a log of two messages from two authors.
\<close>

definition same_ms :: "event list" where
  "same_ms =
     [ReceiveMessage (js ''Al'') (js ''hi'') (Str (js ''10:00'')) (Num 1) 1700000000000 (1/2),
      ReceiveMessage (js ''Bo'') (js ''yo'') (Str (js ''10:00'')) (Num 2) 1700000000000 (1/4)]"

definition near_randoms :: "event list" where
  "near_randoms =
     [ReceiveMessage (js ''Al'') (js ''hi'') (Str (js ''10:00'')) (Num 1) 1700000000000 (1/2),
      ReceiveMessage (js ''Bo'') (js ''yo'') (Str (js ''10:00'')) (Num 2) 1700000000000
        (1/2 + 1/16384)]"

definition two_authors :: app where
  "two_authors = al_joined\<lparr>messages :=
     [receive_message (js ''Al'') (js ''hi'') (Str (js ''10:00'')) (Num 1) 1700000000000 (1/2),
      receive_message (js ''Bo'') (js ''yo'') Undefined (Num 2) 1700000000001 (1/4)]\<rparr>"

section \<open>Trimming and the schema\<close>

lemmas length_defs =
  NAME_MIN_LENGTH_def NAME_MAX_LENGTH_def MESSAGE_MIN_LENGTH_def MESSAGE_MAX_LENGTH_def

lemmas string_defs = js_def trim_def is_ws_def

text \<open>\<open>validate\<close> and \<open>sendMessage\<close> of the render that shows the state, written out.\<close>

lemma validate_unfold:
  "validate ord s =
     (case schema_validate ord (userName s) (messageInput s) of
        None \<Rightarrow> (s\<lparr>validationErrors := None\<rparr>, True)
      | Some m \<Rightarrow> (s\<lparr>validationErrors := Some m\<rparr>, False))"
  by (simp add: validate_def validate_closure_def)

lemma sendMessage_unfold:
  "sendMessage ord s =
     (if isSubmitting s \<or> \<not> connected s \<or> \<not> truthy (userId s) then (s, [])
      else case validate ord s of
        (s', False) \<Rightarrow> (s', [])
      | (s', True) \<Rightarrow>
          if connection s
          then (s'\<lparr>isSubmitting := True\<rparr>, [SendMessage (userId s) (trim (messageInput s))])
          else (send_rejected (s'\<lparr>isSubmitting := True\<rparr>), []))"
  by (simp add: sendMessage_def sendMessage_closure_def validate_def)

lemmas effect_defs =
  run_effects_def deps_def joinChat_def updateName_def updateName_effect_def start_effect_def

lemma last_dropWhile: "dropWhile P xs \<noteq> [] \<Longrightarrow> last (dropWhile P xs) = last xs"
  by (induction xs) (auto split: if_splits)

lemma dropWhile_self: "xs = [] \<or> \<not> P (hd xs) \<Longrightarrow> dropWhile P xs = xs"
  by (cases xs) auto

text \<open>A trimmed string that is not empty neither starts nor ends with white space.\<close>

lemma trim_ends:
  assumes "trim s \<noteq> []"
  shows "\<not> is_ws (hd (trim s))" and "\<not> is_ws (last (trim s))"
proof -
  let ?d = "dropWhile is_ws s"
  let ?r = "dropWhile is_ws (rev ?d)"
  from assms have r: "?r \<noteq> []" by (simp add: trim_def)
  have d: "?d \<noteq> []"
  proof
    assume e: "?d = []"
    have "?r = []" unfolding e by simp
    with r show False by contradiction
  qed
  have "hd (trim s) = last ?r" using r by (simp add: trim_def hd_rev)
  also have "\<dots> = last (rev ?d)" using r by (rule last_dropWhile)
  also have "\<dots> = hd ?d" using d by (simp add: last_rev)
  finally show "\<not> is_ws (hd (trim s))" using d hd_dropWhile by metis
  have "last (trim s) = hd ?r" using r by (simp add: trim_def last_rev)
  then show "\<not> is_ws (last (trim s))" using r hd_dropWhile by metis
qed

lemma trim_idem: "trim (trim s) = trim s"
proof (cases "trim s = []")
  case True
  have "trim [] = []" by (simp add: trim_def)
  with True show ?thesis by simp
next
  case False
  have a: "dropWhile is_ws (trim s) = trim s"
    using trim_ends(1) [OF False] by (simp add: dropWhile_self)
  have "hd (rev (trim s)) = last (trim s)" using False by (simp add: hd_rev)
  then have b: "dropWhile is_ws (rev (trim s)) = rev (trim s)"
    using trim_ends(2) [OF False] by (simp add: dropWhile_self)
  show ?thesis
    unfolding trim_def [of "trim s"] a b by simp
qed

text \<open>
  The schema accepts exactly the pairs within the bounds; the test that \<open>trim()\<close> adds
  never fails, because the value it sees has been trimmed by the cast.
\<close>

lemma validate_field_UserName:
  "validate_field UserName v = None \<longleftrightarrow> 2 \<le> length (trim v) \<and> length (trim v) \<le> 20"
  by (auto simp: validate_field_def trim_idem length_defs)

lemma validate_field_MessageInput:
  "validate_field MessageInput v = None \<longleftrightarrow> 1 \<le> length (trim v) \<and> length (trim v) \<le> 500"
  by (auto simp: validate_field_def trim_idem length_defs)

lemma schema_validate_None:
  "schema_validate ord name msg = None \<longleftrightarrow> within_bounds name msg"
  using validate_field_UserName [of name] validate_field_MessageInput [of msg]
  by (cases ord; cases "validate_field UserName name"; cases "validate_field MessageInput msg")
     (auto simp: schema_validate_def within_bounds_def)

section \<open>Steps and runs\<close>

text \<open>The state a step or a run ends in, without the calls.\<close>

lemma fst_step: "fst (step ord e s) = fst (handle ord e s)"
  by (cases "handle ord e s") (simp add: step_def)

lemma fst_run_Cons: "fst (run ord (e # es) s) = fst (run ord es (fst (step ord e s)))"
  by (cases "step ord e s"; cases "run ord es (fst (step ord e s))") simp

lemma fst_simple_step: "fst (simple_step e s) = fst (simple_handle e s)"
  by (cases "simple_handle e s") (simp add: simple_step_def)

lemma fst_simple_run_Cons:
  "fst (simple_run (e # es) s) = fst (simple_run es (fst (simple_step e s)))"
  by (cases "simple_step e s"; cases "simple_run es (fst (simple_step e s))") simp

section \<open>Identity: join and rename\<close>

text \<open>
  Only the settling of a \<open>JoinChat\<close> promise writes \<open>userId\<close>, and no handler calls
  \<open>JoinChat\<close> itself: the call comes from the join effect alone.
\<close>

lemma handle_userId:
  "userId (fst (handle ord e s)) = (case e of JoinResolved v \<Rightarrow> v | _ \<Rightarrow> userId s)"
  by (cases e) (auto simp: sendMessage_unfold validate_unfold send_resolved_def send_rejected_def
       split: option.splits)

lemma handle_no_join: "filter is_JoinChat (snd (handle ord e s)) = []"
  by (cases e) (auto simp: sendMessage_unfold validate_unfold split: option.splits)

text \<open>
  While the stored identifier is truthy, no step calls \<open>JoinChat\<close>, and the identifier
  stays truthy unless a pending \<open>JoinChat\<close> is answered with a falsy value.
\<close>

lemma step_no_join:
  assumes "truthy (userId s)" and "\<And>v. e = JoinResolved v \<Longrightarrow> truthy v"
  shows "filter is_JoinChat (snd (step ord e s)) = []"
    and "truthy (userId (fst (step ord e s)))"
proof -
  obtain s' cs where h: "handle ord e s = (s', cs)" by (cases "handle ord e s")
  have u: "truthy (userId s')"
    using assms handle_userId [of ord e s] h by (cases e) auto
  have "filter is_JoinChat cs = []" using handle_no_join [of ord e s] h by simp
  moreover have "filter is_JoinChat (run_effects s s') = []"
    using u by (simp add: effect_defs)
  ultimately show "filter is_JoinChat (snd (step ord e s)) = []"
    by (simp add: step_def h)
  show "truthy (userId (fst (step ord e s)))" using u by (simp add: step_def h)
qed

text \<open>
  C1. \<open>UpdateUserName(userId, newName)\<close> is to be invoked only when an identity
  exists and the user name then changes to a non-empty trimmed name different from the
  established one. The source says the same above the rename effect (line 112: "Only update
  if user has been established and name actually changed"), but the effect compares no
  names: it runs whenever \<open>connection\<close>, \<open>connected\<close>, \<open>userId\<close> or \<open>userName\<close>
  changes. Evaluated here: with "Al" typed and the join pending, the answer
  \<open>userId = 1\<close> makes the component call \<open>UpdateUserName(1, "Al")\<close> although the name
  is the one it joined with; and once joined, a reconnect and a trailing space typed after
  the name each repeat the call with the unchanged trimmed name.
\<close>

theorem rename_called_without_name_change:
  "step ord (JoinResolved (Num 1)) al_typed =
     (al_typed\<lparr>userId := Num 1\<rparr>, [UpdateUserName (Num 1) (js ''Al'')])
   \<and> userName (fst (step ord (JoinResolved (Num 1)) al_typed)) = userName al_typed
   \<and> snd (run ord [Closed, Reconnected, NameChange (js ''Al '')]
            (al_joined\<lparr>messageInput := []\<rparr>)) =
       [UpdateUserName (Num 1) (js ''Al''), UpdateUserName (Num 1) (js ''Al'')]"
  by (simp add: step_def effect_defs al_typed_def al_joined_def string_defs length_defs)

text \<open>
  C7. After a connection drop followed by a transport-level reconnect the component is
  connected again, and \<open>JoinChat\<close> is not invoked again when an identity is already
  stored. The stored identity is one the join effect's own test \<open>!userId\<close> recognises,
  a truthy value. The drop reaches the component through \<open>onclose\<close> or not at all (the
  transport may reconnect without closing), so both courses are covered. The identifier
  is untouched.
\<close>

theorem reconnect_keeps_identity:
  assumes "truthy (userId s)"
  shows "connected (fst (run ord [Closed, Reconnected] s))
       \<and> userId (fst (run ord [Closed, Reconnected] s)) = userId s
       \<and> filter is_JoinChat (snd (run ord [Closed, Reconnected] s)) = []
       \<and> connected (fst (run ord [Reconnected] s))
       \<and> filter is_JoinChat (snd (run ord [Reconnected] s)) = []"
  using assms by (simp add: step_def effect_defs)

text \<open>
  At the joined state the two events bring the component back to the very same state; the
  only call made on the way is the rename effect's.
\<close>

theorem reconnect_keeps_identity_witness:
  "truthy (userId al_joined)
   \<and> run NameFirst [Closed, Reconnected] al_joined =
       (al_joined, [UpdateUserName (Num 1) (js ''Al'')])
   \<and> connected (fst (run NameFirst [Closed, Reconnected] al_joined))
   \<and> filter is_JoinChat (snd (run NameFirst [Closed, Reconnected] al_joined)) = []"
proof -
  have t: "truthy (userId al_joined)" by (simp add: al_joined_def)
  have r: "run NameFirst [Closed, Reconnected] al_joined =
             (al_joined, [UpdateUserName (Num 1) (js ''Al'')])"
    by (simp add: step_def effect_defs al_joined_def string_defs)
  from t r reconnect_keeps_identity [OF t, of NameFirst] show ?thesis by simp
qed

section \<open>Submission\<close>

subsection \<open>Submits while a send is in flight\<close>

text \<open>
  A step is an event handled by the render that shows the state, followed by a render.
\<close>

lemma step_as_ticks:
  "ticks ord [Event e, Render] (s, s) =
     ((fst (step ord e s), fst (step ord e s)), snd (step ord e s))"
proof -
  have "handle_closure ord s e s = handle ord e s"
    by (cases "e = Submit") (simp_all add: handle_closure_def sendMessage_def)
  then show ?thesis
    by (cases "handle ord e s") (simp add: step_def)
qed

text \<open>
  A submit from a render that shows the flag raised changes nothing and calls nothing,
  whatever the state is by then.
\<close>

lemma submit_suppressed_when_rendered:
  "isSubmitting r \<Longrightarrow> handle_closure ord r Submit s = (s, [])"
  by (simp add: handle_closure_def sendMessage_closure_def)

text \<open>
  The joined state holds a valid pair, so a submit from its render validates, raises the
  flag in the state and makes the call, whatever the state is by then.
\<close>

lemma al_joined_valid:
  "schema_validate ord (userName al_joined) (messageInput al_joined) = None"
  by (simp add: schema_validate_None within_bounds_def al_joined_def string_defs)

lemma al_joined_submit:
  "handle_closure ord al_joined Submit s =
     (s\<lparr>validationErrors := None, isSubmitting := True\<rparr>,
      [SendMessage (Num 1) (js ''hi'')])"
proof -
  have "sendMessage_closure ord al_joined s =
      (s\<lparr>validationErrors := None, isSubmitting := True\<rparr>,
       [SendMessage (userId al_joined) (trim (messageInput al_joined))])"
    using al_joined_valid [of ord]
    by (simp add: sendMessage_closure_def validate_closure_def) (simp add: al_joined_def)
  moreover have "userId al_joined = Num 1" "trim (messageInput al_joined) = js ''hi''"
    by (simp_all add: al_joined_def string_defs)
  ultimately show ?thesis by (simp add: handle_closure_def)
qed

text \<open>
  When React renders between two submits, the second finds the flag and is suppressed.
\<close>

lemma submit_after_render_suppressed:
  "snd (ticks ord [Event Submit, Render, Event Submit] (al_joined, al_joined)) =
     [SendMessage (Num 1) (js ''hi'')]"
proof -
  let ?s = "al_joined\<lparr>validationErrors := None, isSubmitting := True\<rparr>"
  have "run_effects al_joined ?s = []" by (simp add: effect_defs)
  moreover have "handle_closure ord ?s Submit ?s = (?s, [])"
    by (rule submit_suppressed_when_rendered) simp
  ultimately show ?thesis by (simp add: al_joined_submit)
qed


subsection \<open>The flag is always cleared\<close>

text \<open>
  C8. Every execution of the submit action ends with \<open>isSubmitting\<close> false: when the
  hub accepts the message, when the call fails, and when validation stops the action
  before the call. The first two are the \<open>finally\<close> block, which runs on whatever state
  the component is in when the promise settles; the third leaves the flag as it was, and
  validation is reached only with the flag clear. For a whole execution with nothing in
  between: started with the flag clear, it ends with the flag clear however it goes.
\<close>

theorem isSubmitting_reset:
  "\<not> isSubmitting (fst (step ord SendResolved t))
   \<and> \<not> isSubmitting (fst (step ord SendRejected t))
   \<and> (\<not> isSubmitting s \<and> connected s \<and> truthy (userId s)
        \<and> schema_validate ord (userName s) (messageInput s) \<noteq> None
      \<longrightarrow> snd (step ord Submit s) = [] \<and> \<not> isSubmitting (fst (step ord Submit s)))
   \<and> (\<not> isSubmitting s \<longrightarrow> \<not> isSubmitting (submit_action ord c s))"
  by (cases c)
     (auto simp: step_def effect_defs sendMessage_unfold validate_unfold send_resolved_def
        send_rejected_def submit_action_def split: option.splits)

text \<open>
  At the joined state with a blank message validation fails; with the message " hi " the
  call is made and either answer clears the flag.
\<close>

theorem isSubmitting_reset_witness:
  "\<not> isSubmitting (al_joined\<lparr>messageInput := js ''  ''\<rparr>)
   \<and> connected (al_joined\<lparr>messageInput := js ''  ''\<rparr>)
   \<and> truthy (userId (al_joined\<lparr>messageInput := js ''  ''\<rparr>))
   \<and> schema_validate NameFirst (userName (al_joined\<lparr>messageInput := js ''  ''\<rparr>))
        (messageInput (al_joined\<lparr>messageInput := js ''  ''\<rparr>)) = Some (Literal ''Message required'')
   \<and> snd (step NameFirst Submit (al_joined\<lparr>messageInput := js ''  ''\<rparr>)) = []
   \<and> \<not> isSubmitting (fst (step NameFirst Submit (al_joined\<lparr>messageInput := js ''  ''\<rparr>)))
   \<and> \<not> isSubmitting (submit_action NameFirst Fails (al_joined\<lparr>messageInput := js ''  ''\<rparr>))"
proof -
  let ?s = "al_joined\<lparr>messageInput := js ''  ''\<rparr>"
  have g: "\<not> isSubmitting ?s" "connected ?s" "truthy (userId ?s)"
    by (simp_all add: al_joined_def)
  have v: "schema_validate NameFirst (userName ?s) (messageInput ?s) =
             Some (Literal ''Message required'')"
    by (simp add: schema_validate_def validate_field_def al_joined_def string_defs length_defs)
  from g v isSubmitting_reset [where ord = NameFirst and s = ?s and c = Fails]
  show ?thesis by simp
qed

section \<open>The message log\<close>

text \<open>
  What each event does to the log: a received message is appended, a rename rewrites
  authors in place, and every other event leaves the log as it is.
\<close>

lemma log_after_step:
  "messages (fst (step ord e s)) =
     (case e of
        ReceiveMessage user message timestamp messageUserId now random \<Rightarrow>
          messages s @ [receive_message user message timestamp messageUserId now random]
      | UserNameUpdated oldName newName updatedUserId \<Rightarrow>
          map (rename_message newName updatedUserId) (messages s)
      | _ \<Rightarrow> messages s)"
  by (cases e)
     (auto simp: fst_step sendMessage_unfold validate_unfold send_resolved_def send_rejected_def
        split: option.splits)

lemma simple_log_after_step:
  "simple_messages (fst (simple_step e s)) =
     (case e of
        ReceiveMessage user message timestamp messageUserId now random \<Rightarrow>
          simple_messages s @
            [\<lparr> simple_msg_user = user, simple_msg_message = message, simple_msg_id = now \<rparr>]
      | _ \<Rightarrow> simple_messages s)"
  by (cases e) (auto simp: fst_simple_step simple_sendMessage_def)

lemma content_rename_message [simp]: "content (rename_message newName u m) = content m"
  by (simp add: content_def rename_message_def)

text \<open>
  Over any sequence of events the log is the one before, followed by the received
  messages in the order received; in the identity-aware component up to the author names,
  which renames rewrite.
\<close>

lemma run_log_content:
  "map content (messages (fst (run ord es s))) =
     map content (messages s) @ map content (received es)"
proof (induction es arbitrary: s)
  case Nil
  then show ?case by simp
next
  case (Cons e es)
  have "map content (messages (fst (step ord e s))) =
          map content (messages s) @ map content (received [e])"
    by (cases e) (simp_all add: log_after_step comp_def)
  moreover have "received (e # es) = received [e] @ received es"
    by (cases e) simp_all
  ultimately show ?case
    using Cons.IH [of "fst (step ord e s)"] by (simp only: fst_run_Cons map_append append_assoc)
qed

lemma simple_run_log:
  "simple_messages (fst (simple_run es s)) = simple_messages s @ simple_received es"
proof (induction es arbitrary: s)
  case Nil
  then show ?case by simp
next
  case (Cons e es)
  have "simple_messages (fst (simple_step e s)) = simple_messages s @ simple_received [e]"
    by (cases e) (simp_all add: simple_log_after_step)
  moreover have "simple_received (e # es) = simple_received [e] @ simple_received es"
    by (cases e) simp_all
  ultimately show ?case
    using Cons.IH [of "fst (simple_step e s)"] by (simp only: fst_simple_run_Cons append_assoc)
qed

text \<open>
  At the magnitude of today's clock readings the ids are multiples of \<open>2 ^ - 12\<close>: a
  random number \<open>2 ^ - 14\<close> above one half gives the same sum as one half.
\<close>

lemma near_sums_round_alike:
  "binary64 (of_int 1700000000000 + 1 / 2) = 1700000000000 + 1 / 2"
  "binary64 (of_int 1700000000000 + (1 / 2 + 1 / 16384)) = 1700000000000 + 1 / 2"
  by code_simp+

text \<open>
  C3. Every inbound message is to be appended with a freshly generated id, distinct from
  the id of every message already in the log. The entry is appended at the end, the order
  is the order of receipt and nothing is ever removed (\<open>run_log_content\<close>,
  \<open>simple_run_log\<close>), but the id, which is also the key of the rendered list item, is
  not checked against the log. Evaluated here: in the simple component, whose id is
  \<open>Date.now()\<close> and whose entries keep only author and body, two messages received
  within one millisecond get the same id; in the identity-aware component, which adds
  \<open>Math.random()\<close>, two messages received within one millisecond with the random
  numbers \<open>0.5\<close> and \<open>0.5 + 2 ^ - 14\<close> get the same id, because the sum is rounded.
\<close>

theorem message_ids_collide:
  "simple_messages (fst (simple_run same_ms simple_initial)) =
     [\<lparr> simple_msg_user = js ''Al'', simple_msg_message = js ''hi'', simple_msg_id = 1700000000000 \<rparr>,
      \<lparr> simple_msg_user = js ''Bo'', simple_msg_message = js ''yo'', simple_msg_id = 1700000000000 \<rparr>]
   \<and> \<not> distinct (map simple_msg_id (simple_messages (fst (simple_run same_ms simple_initial))))
   \<and> map msg_id (messages (fst (run ord near_randoms al_joined))) =
        [1700000000000 + 1 / 2, 1700000000000 + 1 / 2]
   \<and> \<not> distinct (map msg_id (messages (fst (run ord near_randoms al_joined))))"
proof -
  have a: "simple_messages (fst (simple_run same_ms simple_initial)) =
     [\<lparr> simple_msg_user = js ''Al'', simple_msg_message = js ''hi'', simple_msg_id = 1700000000000 \<rparr>,
      \<lparr> simple_msg_user = js ''Bo'', simple_msg_message = js ''yo'', simple_msg_id = 1700000000000 \<rparr>]"
    by (simp add: simple_run_log) (simp add: same_ms_def simple_initial_def)
  have c: "map content (messages (fst (run ord near_randoms al_joined))) =
          map content (received near_randoms)"
    by (simp add: run_log_content al_joined_def)
  have "map msg_id (messages (fst (run ord near_randoms al_joined))) =
          map msg_id (received near_randoms)"
    using arg_cong [OF c, of "map (\<lambda>c. snd (snd (snd c)))"]
    by (simp add: comp_def content_def)
  then have b: "map msg_id (messages (fst (run ord near_randoms al_joined))) =
        [1700000000000 + 1 / 2, 1700000000000 + 1 / 2]"
    using near_sums_round_alike
    by (simp add: near_randoms_def receive_message_def)
  from a b show ?thesis by simp
qed

text \<open>
  C5. A rename event \<open>(oldName, newName, renamedUserId)\<close> keeps the length and the order
  of the log; an entry whose author identifier equals \<open>renamedUserId\<close> becomes the same
  entry with author \<open>newName\<close>, every other entry stays as it is, and no entry's body,
  timestamp, author identifier or id changes. Applying the event a second time changes
  nothing more.
\<close>

theorem rename_rewrites_matching_authors:
  "length (messages (fst (step ord (UserNameUpdated oldName newName u) s))) = length (messages s)
   \<and> (\<forall>i < length (messages s).
        (msg_userId (messages s ! i) = u \<longrightarrow>
           messages (fst (step ord (UserNameUpdated oldName newName u) s)) ! i =
             (messages s ! i)\<lparr>msg_user := newName\<rparr>)
      \<and> (msg_userId (messages s ! i) \<noteq> u \<longrightarrow>
           messages (fst (step ord (UserNameUpdated oldName newName u) s)) ! i = messages s ! i)
      \<and> msg_message (messages (fst (step ord (UserNameUpdated oldName newName u) s)) ! i) =
          msg_message (messages s ! i)
      \<and> msg_timestamp (messages (fst (step ord (UserNameUpdated oldName newName u) s)) ! i) =
          msg_timestamp (messages s ! i)
      \<and> msg_userId (messages (fst (step ord (UserNameUpdated oldName newName u) s)) ! i) =
          msg_userId (messages s ! i)
      \<and> msg_id (messages (fst (step ord (UserNameUpdated oldName newName u) s)) ! i) =
          msg_id (messages s ! i))
   \<and> fst (step ord (UserNameUpdated oldName newName u)
            (fst (step ord (UserNameUpdated oldName newName u) s))) =
       fst (step ord (UserNameUpdated oldName newName u) s)"
  by (simp add: fst_step rename_message_def)

text \<open>
  In a log with one message of user 1 and one of user 2, renaming user 1 to "Alicia"
  rewrites the first author and nothing else.
\<close>

theorem rename_rewrites_matching_authors_witness:
  "0 < length (messages two_authors) \<and> 1 < length (messages two_authors)
   \<and> msg_userId (messages two_authors ! 0) = Num 1
   \<and> msg_userId (messages two_authors ! 1) \<noteq> Num 1
   \<and> messages (fst (step NameFirst (UserNameUpdated (js ''Al'') (js ''Alicia'') (Num 1)) two_authors)) ! 0 =
       (messages two_authors ! 0)\<lparr>msg_user := js ''Alicia''\<rparr>
   \<and> messages (fst (step NameFirst (UserNameUpdated (js ''Al'') (js ''Alicia'') (Num 1)) two_authors)) ! 1 =
       messages two_authors ! 1"
proof -
  have l: "0 < length (messages two_authors)" "1 < length (messages two_authors)"
    by (simp_all add: two_authors_def)
  have u: "msg_userId (messages two_authors ! 0) = Num 1"
       "msg_userId (messages two_authors ! 1) \<noteq> Num 1"
    by (simp_all add: two_authors_def receive_message_def)
  from rename_rewrites_matching_authors
         [of NameFirst "js ''Al''" "js ''Alicia''" "Num 1" two_authors]
  have "\<forall>i < length (messages two_authors).
          (msg_userId (messages two_authors ! i) = Num 1 \<longrightarrow>
             messages (fst (step NameFirst (UserNameUpdated (js ''Al'') (js ''Alicia'') (Num 1)) two_authors)) ! i =
               (messages two_authors ! i)\<lparr>msg_user := js ''Alicia''\<rparr>)
        \<and> (msg_userId (messages two_authors ! i) \<noteq> Num 1 \<longrightarrow>
             messages (fst (step NameFirst (UserNameUpdated (js ''Al'') (js ''Alicia'') (Num 1)) two_authors)) ! i =
               messages two_authors ! i)"
    by blast
  with l u show ?thesis by blast
qed

section \<open>Validation and the input fields\<close>

subsection \<open>Submissions outside the bounds\<close>

text \<open>
  In the identity-aware component a submit makes no call when the trimmed name is shorter
  than 2 or longer than 20 code units, or the trimmed message is empty or longer than 500:
  either an earlier guard returns or the schema rejects the pair.
\<close>

lemma submit_blocked_out_of_bounds:
  assumes "length (trim (userName s)) < 2 \<or> 20 < length (trim (userName s))
         \<or> trim (messageInput s) = [] \<or> 500 < length (trim (messageInput s))"
  shows "snd (step ord Submit s) = []"
proof -
  from assms have "\<not> within_bounds (userName s) (messageInput s)"
    by (auto simp: within_bounds_def)
  then have "schema_validate ord (userName s) (messageInput s) \<noteq> None"
    by (simp add: schema_validate_None)
  then show ?thesis
    by (auto simp: step_def effect_defs sendMessage_unfold validate_unfold)
qed

text \<open>
  C4. A name whose trimmed length is below 2 or above 20, or a message that is empty
  after trimming or longer than 500, is to block the submit before any call. The
  identity-aware component does so (\<open>submit_blocked_out_of_bounds\<close>). The simple
  component declares the same constants and the same schema and never reads them: its
  \<open>sendMessage\<close> tests only that both trimmed strings are non-empty. Evaluated here:
  with the one-letter name "A" and the message "hi" it calls \<open>SendMessage("A", "hi")\<close>.
\<close>

theorem simple_submit_ignores_length_bounds:
  "length (trim (simple_userName simple_a)) < NAME_MIN_LENGTH
   \<and> simple_step Submit simple_a = (simple_a, [SendMessage (Str (js ''A'')) (js ''hi'')])"
  by (simp add: simple_step_def simple_sendMessage_def simple_a_def string_defs length_defs)

subsection \<open>What a successful submit changes\<close>

text \<open>
  C6. For every name and message within the length bounds, a submit whose call the hub
  accepts leaves the message field empty and the name field as it was, in both components
  (the identity-aware one being connected, joined and idle; the simple one having its
  connection object). No part of the submit action, whether the call is made, accepted or
  refused, writes the name field, and the acceptance clears the message field in whatever
  state it arrives.
\<close>

theorem submit_success_clears_message_only:
  "(within_bounds (userName s) (messageInput s) \<and> connection s \<and> connected s
      \<and> truthy (userId s) \<and> \<not> isSubmitting s \<longrightarrow>
      snd (run ord [Submit, SendResolved] s) = [SendMessage (userId s) (trim (messageInput s))]
      \<and> messageInput (fst (run ord [Submit, SendResolved] s)) = []
      \<and> userName (fst (run ord [Submit, SendResolved] s)) = userName s)
   \<and> (within_bounds (simple_userName t) (simple_messageInput t) \<and> simple_connection t \<longrightarrow>
      snd (simple_run [Submit, SendResolved] t) =
        [SendMessage (Str (trim (simple_userName t))) (simple_messageInput t)]
      \<and> simple_messageInput (fst (simple_run [Submit, SendResolved] t)) = []
      \<and> simple_userName (fst (simple_run [Submit, SendResolved] t)) = simple_userName t)
   \<and> (e \<in> {Submit, SendResolved, SendRejected} \<longrightarrow>
        userName (fst (step ord e s')) = userName s'
      \<and> simple_userName (fst (simple_step e t')) = simple_userName t')
   \<and> messageInput (fst (step ord SendResolved s')) = []
   \<and> simple_messageInput (fst (simple_step SendResolved t')) = []"
proof -
  have a: "snd (run ord [Submit, SendResolved] s) = [SendMessage (userId s) (trim (messageInput s))]
      \<and> messageInput (fst (run ord [Submit, SendResolved] s)) = []
      \<and> userName (fst (run ord [Submit, SendResolved] s)) = userName s"
    if "within_bounds (userName s) (messageInput s)" "connection s" "connected s"
       "truthy (userId s)" "\<not> isSubmitting s"
  proof -
    from that(1) have "schema_validate ord (userName s) (messageInput s) = None"
      by (simp add: schema_validate_None)
    with that have "step ord Submit s =
        (s\<lparr>validationErrors := None, isSubmitting := True\<rparr>,
         [SendMessage (userId s) (trim (messageInput s))])"
      by (simp add: step_def effect_defs sendMessage_unfold validate_unfold)
    then show ?thesis
      by (simp add: step_def effect_defs send_resolved_def)
  qed
  have b: "snd (simple_run [Submit, SendResolved] t) =
        [SendMessage (Str (trim (simple_userName t))) (simple_messageInput t)]
      \<and> simple_messageInput (fst (simple_run [Submit, SendResolved] t)) = []
      \<and> simple_userName (fst (simple_run [Submit, SendResolved] t)) = simple_userName t"
    if "within_bounds (simple_userName t) (simple_messageInput t)" "simple_connection t"
  proof -
    from that(1) have "trim (simple_messageInput t) \<noteq> []" "trim (simple_userName t) \<noteq> []"
      by (auto simp: within_bounds_def)
    with that(2) show ?thesis
      by (simp add: simple_step_def simple_sendMessage_def)
  qed
  have c: "userName (fst (step ord e s')) = userName s'"
    if "e \<in> {Submit, SendResolved, SendRejected}"
    using that
    by (auto simp: fst_step sendMessage_unfold validate_unfold send_resolved_def send_rejected_def
          split: option.splits)
  have d: "simple_userName (fst (simple_step e t')) = simple_userName t'"
    if "e \<in> {Submit, SendResolved, SendRejected}"
    using that by (auto simp: fst_simple_step simple_sendMessage_def)
  have e: "messageInput (fst (step ord SendResolved s')) = []"
    "simple_messageInput (fst (simple_step SendResolved t')) = []"
    by (simp_all add: fst_step fst_simple_step send_resolved_def)
  from a b c d e show ?thesis by blast
qed

text \<open>
  The joined state and its simple counterpart, with name "Al" and message " hi ".
\<close>

theorem submit_success_clears_message_only_witness:
  "within_bounds (userName al_joined) (messageInput al_joined) \<and> connection al_joined
   \<and> connected al_joined \<and> truthy (userId al_joined) \<and> \<not> isSubmitting al_joined
   \<and> snd (run NameFirst [Submit, SendResolved] al_joined) = [SendMessage (Num 1) (js ''hi'')]
   \<and> messageInput (fst (run NameFirst [Submit, SendResolved] al_joined)) = []
   \<and> userName (fst (run NameFirst [Submit, SendResolved] al_joined)) = js ''Al''
   \<and> within_bounds (simple_userName simple_al) (simple_messageInput simple_al)
   \<and> simple_connection simple_al
   \<and> snd (simple_run [Submit, SendResolved] simple_al) =
        [SendMessage (Str (js ''Al'')) (js '' hi '')]
   \<and> simple_messageInput (fst (simple_run [Submit, SendResolved] simple_al)) = []
   \<and> simple_userName (fst (simple_run [Submit, SendResolved] simple_al)) = js ''Al''
   \<and> Submit \<in> {Submit, SendResolved, SendRejected}
   \<and> userName (fst (step NameFirst Submit al_joined)) = js ''Al''"
proof -
  have h: "within_bounds (userName al_joined) (messageInput al_joined)" "connection al_joined"
    "connected al_joined" "truthy (userId al_joined)" "\<not> isSubmitting al_joined"
    by (simp_all add: al_joined_def within_bounds_def string_defs)
  have k: "within_bounds (simple_userName simple_al) (simple_messageInput simple_al)"
    "simple_connection simple_al"
    by (simp_all add: simple_al_def within_bounds_def string_defs)
  have m: "Submit \<in> {Submit, SendResolved, SendRejected}" by simp
  have v: "userId al_joined = Num 1" "trim (messageInput al_joined) = js ''hi''"
    "userName al_joined = js ''Al''" "trim (simple_userName simple_al) = js ''Al''"
    "simple_userName simple_al = js ''Al''" "simple_messageInput simple_al = js '' hi ''"
    by (simp_all add: al_joined_def simple_al_def string_defs)
  from h k m v
    submit_success_clears_message_only
      [where ord = NameFirst and s = al_joined and t = simple_al and e = Submit
         and s' = al_joined and t' = simple_al]
  show ?thesis by simp
qed

subsection \<open>What the simple component sends\<close>

text \<open>
  C9. In the simple component, when the submit passes its guard, the call made is
  \<open>SendMessage(userName.trim(), messageInput)\<close>: the name trimmed, the message as typed.
  So for a message with white space at either end the text sent is the untrimmed one, not
  the trimmed one.
\<close>

theorem simple_sends_raw_message:
  "trim (simple_messageInput t) \<noteq> [] \<and> trim (simple_userName t) \<noteq> [] \<and> simple_connection t \<longrightarrow>
     snd (simple_step Submit t) = [SendMessage (Str (trim (simple_userName t))) (simple_messageInput t)]
     \<and> (simple_messageInput t \<noteq> trim (simple_messageInput t) \<longrightarrow>
          SendMessage (Str (trim (simple_userName t))) (trim (simple_messageInput t))
            \<notin> set (snd (simple_step Submit t)))"
  by (auto simp: simple_step_def simple_sendMessage_def)

text \<open>The message " hi " is sent with its spaces; the name "Al" is sent trimmed.\<close>

theorem simple_sends_raw_message_witness:
  "trim (simple_messageInput simple_al) \<noteq> [] \<and> trim (simple_userName simple_al) \<noteq> []
   \<and> simple_connection simple_al
   \<and> simple_messageInput simple_al \<noteq> trim (simple_messageInput simple_al)
   \<and> snd (simple_step Submit simple_al) = [SendMessage (Str (js ''Al'')) (js '' hi '')]
   \<and> SendMessage (Str (js ''Al'')) (js ''hi'') \<notin> set (snd (simple_step Submit simple_al))"
proof -
  have h: "trim (simple_messageInput simple_al) \<noteq> []" "trim (simple_userName simple_al) \<noteq> []"
    "simple_connection simple_al"
    "simple_messageInput simple_al \<noteq> trim (simple_messageInput simple_al)"
    by (simp_all add: simple_al_def string_defs)
  have v: "trim (simple_userName simple_al) = js ''Al''"
    "simple_messageInput simple_al = js '' hi ''" "trim (js '' hi '') = js ''hi''"
    by (simp_all add: simple_al_def string_defs)
  from h v simple_sends_raw_message [of simple_al] show ?thesis by simp
qed

subsection \<open>The stored validation error\<close>

text \<open>
  Aborting at the first failing rule gives the head of the list of all failures.
\<close>

lemma first_failure_filter:
  "first_failure f rs v =
     (case map (message_of f) (filter (\<lambda>r. \<not> test r v) rs) of [] \<Rightarrow> None | m # ms \<Rightarrow> Some m)"
  by (induction rs) auto

lemma validate_field_failures:
  "validate_field f v = (case failures f v of [] \<Rightarrow> None | m # ms \<Rightarrow> Some m)"
  by (simp add: validate_field_def failures_def first_failure_filter)

lemma first_error_failures:
  "first_error fs name msg =
     (case concat (map (\<lambda>f. failures f (field_value f name msg)) fs) of
        [] \<Rightarrow> None | m # ms \<Rightarrow> Some m)"
proof (induction fs)
  case Nil
  then show ?case by simp
next
  case (Cons f fs)
  then show ?case
    by (cases "failures f (field_value f name msg)") (simp_all add: validate_field_failures)
qed

lemma schema_validate_failures:
  "schema_validate ord name msg =
     (case all_failures ord name msg of [] \<Rightarrow> None | m # ms \<Rightarrow> Some m)"
  by (simp add: schema_validate_def all_failures_def first_error_failures)

text \<open>
  C10. In the identity-aware component \<open>validate\<close> succeeds exactly when no rule of the
  schema fails; it then stores the empty error state and changes nothing else, so that a
  submit that goes on to the call has cleared any error shown before. When some rule
  fails, it stores one message, that of the first failing rule in the order the library
  visits the rules, and the submit makes no call.
\<close>

theorem validate_stores_first_failure:
  "(snd (validate ord s) \<longleftrightarrow> all_failures ord (userName s) (messageInput s) = [])
   \<and> (snd (validate ord s) \<longrightarrow> fst (validate ord s) = s\<lparr>validationErrors := None\<rparr>)
   \<and> (\<not> snd (validate ord s) \<longrightarrow>
        fst (validate ord s) =
          s\<lparr>validationErrors := Some (hd (all_failures ord (userName s) (messageInput s)))\<rparr>)
   \<and> (\<not> isSubmitting s \<and> connected s \<and> truthy (userId s) \<and> connection s \<and> snd (validate ord s) \<longrightarrow>
        validationErrors (fst (step ord Submit s)) = None
      \<and> snd (step ord Submit s) = [SendMessage (userId s) (trim (messageInput s))])
   \<and> (\<not> isSubmitting s \<and> connected s \<and> truthy (userId s) \<and> \<not> snd (validate ord s) \<longrightarrow>
        validationErrors (fst (step ord Submit s)) =
          Some (hd (all_failures ord (userName s) (messageInput s)))
      \<and> snd (step ord Submit s) = [])"
  by (cases "all_failures ord (userName s) (messageInput s)")
     (auto simp: validate_unfold schema_validate_failures step_def effect_defs sendMessage_unfold)

text \<open>
  At the joined state, which still shows "Message required" from an earlier attempt, the
  pair is valid and the error is cleared. With the name "A" and a blank message three rules
  fail and the one message stored is the first: the name's when the library visits the
  name first, "Message required" when it visits the message first.
\<close>

theorem validate_stores_first_failure_witness:
  "snd (validate NameFirst al_joined)
   \<and> validationErrors al_joined = Some (Literal ''Message required'')
   \<and> validationErrors (fst (validate NameFirst al_joined)) = None
   \<and> \<not> isSubmitting al_joined \<and> connected al_joined \<and> truthy (userId al_joined)
   \<and> connection al_joined
   \<and> validationErrors (fst (step NameFirst Submit al_joined)) = None
   \<and> \<not> snd (validate NameFirst (al_joined\<lparr>userName := js ''A'', messageInput := js ''  ''\<rparr>))
   \<and> all_failures NameFirst (js ''A'') (js ''  '') =
        [Default UserName (Min 2), Literal ''Message required'', Default MessageInput (Min 1)]
   \<and> validationErrors (fst (step NameFirst Submit
        (al_joined\<lparr>userName := js ''A'', messageInput := js ''  ''\<rparr>))) =
        Some (Default UserName (Min 2))
   \<and> snd (step NameFirst Submit (al_joined\<lparr>userName := js ''A'', messageInput := js ''  ''\<rparr>)) = []
   \<and> all_failures MessageFirst (js ''A'') (js ''  '') =
        [Literal ''Message required'', Default MessageInput (Min 1), Default UserName (Min 2)]
   \<and> validationErrors (fst (step MessageFirst Submit
        (al_joined\<lparr>userName := js ''A'', messageInput := js ''  ''\<rparr>))) =
        Some (Literal ''Message required'')"
proof -
  let ?bad = "al_joined\<lparr>userName := js ''A'', messageInput := js ''  ''\<rparr>"
  have g: "\<not> isSubmitting al_joined" "connected al_joined" "truthy (userId al_joined)"
    "connection al_joined" "validationErrors al_joined = Some (Literal ''Message required'')"
    "\<not> isSubmitting ?bad" "connected ?bad" "truthy (userId ?bad)"
    "userName ?bad = js ''A''" "messageInput ?bad = js ''  ''"
    by (simp_all add: al_joined_def)
  have ok: "all_failures NameFirst (userName al_joined) (messageInput al_joined) = []"
    by (simp add: all_failures_def failures_def al_joined_def string_defs length_defs)
  have bad: "all_failures NameFirst (js ''A'') (js ''  '') =
      [Default UserName (Min 2), Literal ''Message required'', Default MessageInput (Min 1)]"
    by (simp add: all_failures_def failures_def string_defs length_defs)
  have bad': "all_failures MessageFirst (js ''A'') (js ''  '') =
      [Literal ''Message required'', Default MessageInput (Min 1), Default UserName (Min 2)]"
    by (simp add: all_failures_def failures_def string_defs length_defs)
  from g ok bad bad'
    validate_stores_first_failure [of NameFirst al_joined]
    validate_stores_first_failure [of NameFirst ?bad]
    validate_stores_first_failure [of MessageFirst ?bad]
  show ?thesis by simp
qed

end
